theory Spec2Isabelle
  imports Complex_Main "HOL-Library.Sublist"
begin

section \<open>Strings\<close>

text \<open>
  A JavaScript string is a sequence of UTF-16 code units. The model works on strings whose
  code units are below 256 (Latin-1), one \<^typ>\<open>char\<close> per code unit. On that range
  \<^verbatim>\<open>String.prototype.toLowerCase\<close> maps \<^verbatim>\<open>A-Z\<close> and the accented capitals
  \<^verbatim>\<open>U+00C0 .. U+00DE\<close> (the multiplication sign \<^verbatim>\<open>U+00D7\<close> apart) to the letter 32
  places further, and leaves everything else alone; \<^verbatim>\<open>trim\<close> and the regular
  expression class \<^verbatim>\<open>\s\<close> know the white space characters TAB, LF, VT, FF, CR, SPACE
  and NBSP.
\<close>

definition is_space :: "char \<Rightarrow> bool" where
  "is_space c = (of_char c \<in> {9::nat, 10, 11, 12, 13, 32, 160})"

definition is_upper :: "char \<Rightarrow> bool" where
  "is_upper c =
     (let n = (of_char c :: nat)
      in (65 \<le> n \<and> n \<le> 90) \<or> (192 \<le> n \<and> n \<le> 222 \<and> n \<noteq> 215))"

definition lower_char :: "char \<Rightarrow> char" where
  "lower_char c = (if is_upper c then char_of (of_char c + (32::nat)) else c)"

definition toLowerCase :: "string \<Rightarrow> string" where
  "toLowerCase s = map lower_char s"

definition trim :: "string \<Rightarrow> string" where
  "trim s = rev (dropWhile is_space (rev (dropWhile is_space s)))"

section \<open>Regular expressions of the classifier\<close>

text \<open>
  Every regular expression of \<^verbatim>\<open>classifyContext\<close> is an alternation of words without
  anchors and without flags; the only construct beyond literal characters is the optional
  white space of \<^verbatim>\<open>star\s?wars\<close>. A word is a list of atoms, \<^verbatim>\<open>RegExp.prototype.test\<close>
  searches for a match starting at any position.
\<close>

datatype atom = Lit char | OptSpace

definition lit :: "string \<Rightarrow> atom list" where
  "lit s = map Lit s"

fun match_here :: "atom list \<Rightarrow> string \<Rightarrow> bool" where
  "match_here [] s = True"
| "match_here (Lit c # p) [] = False"
| "match_here (Lit c # p) (x # s) = (c = x \<and> match_here p s)"
| "match_here (OptSpace # p) [] = match_here p []"
| "match_here (OptSpace # p) (x # s) = ((is_space x \<and> match_here p s) \<or> match_here p (x # s))"

fun search :: "atom list \<Rightarrow> string \<Rightarrow> bool" where
  "search p [] = match_here p []"
| "search p (x # s) = (match_here p (x # s) \<or> search p s)"

definition test :: "atom list list \<Rightarrow> string \<Rightarrow> bool" where
  "test alts s = list_ex (\<lambda>p. search p s) alts"

section \<open>Normalisation and the context classifier (utils/memory.ts)\<close>

definition normalizeQuery :: "string \<Rightarrow> string" where
  "normalizeQuery q = toLowerCase (trim q)"

record ContextKey =
  intent :: string
  topic :: string
  tone :: string

definition interrogative_words :: "string list" where
  "interrogative_words =
     [''what'', ''why'', ''how'', ''who'', ''when'', ''is'', ''are'', ''do'', ''does'', ''should'']"

definition re_intent :: "atom list list" where
  "re_intent = map lit (''?'' # interrogative_words)"

definition re_crypto :: "atom list list" where
  "re_crypto = map lit [''solana'', ''eth'', ''btc'', ''pump.fun'', ''crypto'']"

definition re_starwars :: "atom list list" where
  "re_starwars =
     [lit ''star'' @ [OptSpace] @ lit ''wars'', lit ''mandalorian'', lit ''jedi'', lit ''sith'',
      lit ''grogu'', lit ''beskar'']"

definition re_anime :: "atom list list" where
  "re_anime = map lit [''anime'', ''manga'', ''ghibli'', ''otaku'']"

definition re_music :: "atom list list" where
  "re_music = map lit [''music'', ''song'', ''album'', ''track'', ''playlist'']"

definition re_movie :: "atom list list" where
  "re_movie = map lit [''movie'', ''film'', ''director'', ''cinema'']"

definition re_celebrity :: "atom list list" where
  "re_celebrity = map lit [''actor'', ''actress'', ''celebrity'', ''famous'', ''idol'']"

definition re_tech :: "atom list list" where
  "re_tech = map lit [''tech'', ''software'', ''engineer'', ''developer'', ''app'']"

definition re_alien :: "atom list list" where
  "re_alien = map lit [''alien'', ''conspiracy'', ''galaxy'', ''ufo'']"

definition re_popculture :: "atom list list" where
  "re_popculture = map lit [''pop'', ''trend'', ''meme'', ''viral'', ''culture'']"

definition re_empathetic :: "atom list list" where
  "re_empathetic =
     map lit [''hug'', ''love'', ''care'', ''whisper'', ''sweet'', ''friend'', ''heart'', ''smile'',
              ''lol'', ''haha'', ''funny'']"

definition re_playful :: "atom list list" where
  "re_playful = map lit [''joke'', ''play'', ''tease'', ''fun'', ''wink'', ''lmao'', ''rofl'']"

definition re_serious :: "atom list list" where
  "re_serious =
     map lit [''war'', ''battle'', ''honor'', ''duty'', ''survive'', ''fight'', ''serious'', ''code'']"

definition classify_lower :: "string \<Rightarrow> ContextKey" where
  "classify_lower q =
     \<lparr> intent = (if test re_intent q then ''question'' else ''statement''),
       topic =
         (if test re_crypto q then ''crypto''
          else if test re_starwars q then ''starwars''
          else if test re_anime q then ''anime''
          else if test re_music q then ''music''
          else if test re_movie q then ''movie''
          else if test re_celebrity q then ''celebrity''
          else if test re_tech q then ''tech''
          else if test re_alien q then ''alien''
          else if test re_popculture q then ''popculture''
          else ''other''),
       tone =
         (if test re_empathetic q then ''empathetic''
          else if test re_playful q then ''playful''
          else if test re_serious q then ''serious''
          else ''neutral'') \<rparr>"

definition classifyContext :: "string \<Rightarrow> ContextKey" where
  "classifyContext query = classify_lower (toLowerCase query)"


section \<open>Stores, external services and their failures\<close>

text \<open>
  An exception is a value \<open>Error message\<close>. The two MongoDB collections and the
  Pinecone index are lists in the state \<open>world\<close>; the services the code only calls
  (the embedding model, the similarity search of Pinecone, the chat model) and the
  failures of the stores are the fields of \<open>backend\<close>. Every call to a store or a
  service is appended to \<open>calls\<close>, so that a theorem can say which calls a function
  made. Console output is not modelled.
\<close>

datatype error = Error string

text \<open>
  The parameter \<^verbatim>\<open>response\<close> of \<^verbatim>\<open>addOrUpdateLongTermMemory\<close> has the type
  \<^verbatim>\<open>any\<close>. A value is a string, or a value that is not a string (null, a boolean, a
  number, an array, an object), given by its truthiness and by the text that
  \<^verbatim>\<open>JSON.stringify\<close> makes of it. \<open>response_text\<close> is
  \<^verbatim>\<open>typeof v === 'string' ? v : JSON.stringify(v)\<close>.
\<close>

datatype js_value = JString string | JOther bool string

fun js_truthy :: "js_value \<Rightarrow> bool" where
  "js_truthy (JString s) = (s \<noteq> [])"
| "js_truthy (JOther t j) = t"

fun response_text :: "js_value \<Rightarrow> string" where
  "response_text (JString s) = s"
| "response_text (JOther t j) = j"

text \<open>
  A JavaScript number is an IEEE 754 double, a rational number; \<^verbatim>\<open>>=\<close> on finite
  numbers is the order of the rationals they denote. A decimal literal \<open>x\<close> with
  \<open>1/2 \<le> x < 1\<close> denotes the double nearest to it, a multiple of \<open>2\<^sup>-\<^sup>5\<^sup>3\<close>
  (no literal of the code, and none used here, lies half way between two doubles).
\<close>

definition js_number :: "real \<Rightarrow> real" where
  "js_number x = of_int (round (x * 2 ^ 53)) / 2 ^ 53"


record MemoryEntry =
  me_username :: string
  me_query :: string
  me_summary :: string
  me_response :: js_value
  me_intent :: string
  me_topic :: string
  me_tone :: string
  me_date :: string
  me_createdAt :: string
  me_cachedAt :: string

text \<open>
  \<^verbatim>\<open>Buffer.from(normalized).toString('base64')\<close> is an injective encoding of its
  argument; the constructor \<open>Base64\<close> stands for it.
\<close>

datatype vector_id = Base64 string

text \<open>
  Pinecone metadata is untyped: a field may be absent (\<open>None\<close>). The fields the code
  reads are strings when present: it writes strings only (a response that is not a string
  is passed through \<^verbatim>\<open>JSON.stringify\<close> before it is stored).
\<close>

record Metadata =
  md_query :: "string option"
  md_summary :: "string option"
  md_response :: "string option"
  md_intent :: "string option"
  md_topic :: "string option"
  md_tone :: "string option"
  md_type :: "string option"

record VectorEntry =
  ve_id :: vector_id
  ve_values :: "real list"
  ve_metadata :: Metadata

text \<open>A similarity score is a JavaScript number; a missing score is \<open>None\<close>.\<close>

record Match =
  m_id :: vector_id
  m_score :: "real option"
  m_metadata :: "Metadata option"

record QueryFilter =
  f_intent :: string
  f_topic :: "string option"
  f_tone :: "string option"
  f_type :: "string option"

record QueryRequest =
  q_vector :: "real list"
  q_topK :: nat
  q_includeMetadata :: bool
  q_filter :: "QueryFilter option"

record Message =
  msg_role :: string
  msg_content :: string

record Session =
  s_username :: string
  s_messages :: "Message list"
  s_lastActive :: string
  s_lastActiveFormatted :: string

text \<open>The reading of one \<^verbatim>\<open>new Date()\<close>: its ISO string and its \<^verbatim>\<open>formatDate\<close> string.\<close>

record Clock =
  toISOString :: string
  formatDate :: string

datatype call =
    MongoFindOne string
  | MongoUpdateOne string
  | GetEmbedding string
  | PineconeQuery QueryRequest
  | PineconeUpsert vector_id
  | SessionFindOne string
  | SessionUpdateOne string
  | StreamText string

record world =
  long_term :: "MemoryEntry list"
  vectors :: "VectorEntry list"
  sessions :: "Session list"
  calls :: "call list"

record backend =
  findOne_error :: "error option"
  updateOne_error :: "error option"
  getEmbedding :: "string \<Rightarrow> error + real list"
  pinecone_query :: "VectorEntry list \<Rightarrow> QueryRequest \<Rightarrow> error + Match list"
  upsert_error :: "error option"
  session_findOne_error :: "error option"
  session_updateOne_error :: "error option"
  streamText :: "Message list \<Rightarrow> error + string list"

definition log_call :: "call \<Rightarrow> world \<Rightarrow> world" where
  "log_call c w = w\<lparr>calls := calls w @ [c]\<rparr>"

text \<open>\<^verbatim>\<open>updateOne(filter, {$set: doc}, {upsert: true})\<close>: the first document that matches is
  rewritten, and a new one is inserted when none matches.\<close>

fun updateOne_upsert :: "MemoryEntry \<Rightarrow> MemoryEntry list \<Rightarrow> MemoryEntry list" where
  "updateOne_upsert e [] = [e]"
| "updateOne_upsert e (d # ds) =
     (if me_query d = me_query e then e # ds else d # updateOne_upsert e ds)"

fun upsert_vector :: "VectorEntry \<Rightarrow> VectorEntry list \<Rightarrow> VectorEntry list" where
  "upsert_vector e [] = [e]"
| "upsert_vector e (d # ds) =
     (if ve_id d = ve_id e then e # ds else d # upsert_vector e ds)"

fun session_upsert :: "Session \<Rightarrow> Session list \<Rightarrow> Session list" where
  "session_upsert e [] = [e]"
| "session_upsert e (d # ds) =
     (if s_username d = s_username e then e # ds else d # session_upsert e ds)"

text \<open>\<^verbatim>\<open>m.metadata?.field\<close>\<close>

definition meta_field :: "(Metadata \<Rightarrow> string option) \<Rightarrow> Match \<Rightarrow> string option" where
  "meta_field f m = (case m_metadata m of None \<Rightarrow> None | Some md \<Rightarrow> f md)"

text \<open>Truthiness of a value that is a string or undefined.\<close>

definition truthy :: "string option \<Rightarrow> bool" where
  "truthy v = (case v of None \<Rightarrow> False | Some s \<Rightarrow> s \<noteq> [])"

section \<open>Long-term memory (utils/memory.ts)\<close>

definition searchValidCachedMemory ::
  "backend \<Rightarrow> string \<Rightarrow> string \<Rightarrow> world \<Rightarrow> MemoryEntry option \<times> world" where
  "searchValidCachedMemory be username query w =
     (let normalized = normalizeQuery query;
          w1 = log_call (MongoFindOne normalized) w
      in case findOne_error be of
           Some err \<Rightarrow> (None, w1)
         | None \<Rightarrow> (find (\<lambda>d. me_query d = normalized) (long_term w1), w1))"

text \<open>The predicate of the \<^verbatim>\<open>find\<close> over the probe's matches; the threshold is the
  literal \<^verbatim>\<open>0.98\<close>.\<close>

definition admit_threshold :: real where
  "admit_threshold = js_number (98 / 100)"

definition near_duplicate :: "ContextKey \<Rightarrow> Match \<Rightarrow> bool" where
  "near_duplicate c m =
     ((case m_score m of None \<Rightarrow> 0 | Some s \<Rightarrow> s) \<ge> admit_threshold \<and>
      meta_field md_intent m = Some (intent c) \<and>
      meta_field md_topic m = Some (topic c) \<and>
      meta_field md_tone m = Some (tone c))"

definition admit_probe :: "real list \<Rightarrow> QueryRequest" where
  "admit_probe embedding =
     \<lparr> q_vector = embedding, q_topK = 5, q_includeMetadata = True, q_filter = None \<rparr>"

text \<open>The document of the \<^verbatim>\<open>$set\<close>: the response is stored as it was given.\<close>

definition memory_entry ::
  "Clock \<Rightarrow> string \<Rightarrow> string \<Rightarrow> string \<Rightarrow> js_value \<Rightarrow> ContextKey \<Rightarrow> MemoryEntry" where
  "memory_entry now username summary normalized response c =
     \<lparr> me_username = username, me_query = normalized, me_summary = summary,
       me_response = response, me_intent = intent c, me_topic = topic c, me_tone = tone c,
       me_date = takeWhile (\<lambda>ch. ch \<noteq> CHR ''T'') (toISOString now),
       me_createdAt = formatDate now, me_cachedAt = toISOString now \<rparr>"

text \<open>The vector that is upserted: the response is stored as a string, through
  \<^verbatim>\<open>JSON.stringify\<close> when it is not one.\<close>

definition vector_entry ::
  "real list \<Rightarrow> string \<Rightarrow> string \<Rightarrow> js_value \<Rightarrow> ContextKey \<Rightarrow> VectorEntry" where
  "vector_entry embedding summary normalized response c =
     \<lparr> ve_id = Base64 normalized, ve_values = embedding,
       ve_metadata =
         \<lparr> md_query = Some normalized, md_summary = Some summary,
           md_response = Some (response_text response),
           md_intent = Some (intent c), md_topic = Some (topic c), md_tone = Some (tone c),
           md_type = None \<rparr> \<rparr>"

definition addOrUpdateLongTermMemory ::
  "backend \<Rightarrow> Clock \<Rightarrow> string \<Rightarrow> string \<Rightarrow> string \<Rightarrow> js_value \<Rightarrow> world
     \<Rightarrow> (error + unit) \<times> world" where
  "addOrUpdateLongTermMemory be now username summary query response w =
     (let normalized = normalizeQuery query;
          c = classifyContext query;
          w1 = log_call (MongoUpdateOne normalized) w
      in case updateOne_error be of
           Some err \<Rightarrow> (Inl err, w1)
         | None \<Rightarrow>
            (let w2 = w1\<lparr>long_term :=
                       updateOne_upsert (memory_entry now username summary normalized response c)
                         (long_term w1)\<rparr>;
                 w3 = log_call (GetEmbedding normalized) w2
             in case getEmbedding be normalized of
                  Inl err \<Rightarrow> (Inl err, w3)
                | Inr embedding \<Rightarrow>
                   (let w4 = log_call (PineconeQuery (admit_probe embedding)) w3
                    in case pinecone_query be (vectors w4) (admit_probe embedding) of
                         Inl err \<Rightarrow> (Inl err, w4)
                       | Inr matches \<Rightarrow>
                          (case find (near_duplicate c) matches of
                             Some matched \<Rightarrow> (Inr (), w4)
                           | None \<Rightarrow>
                              (let w5 = log_call (PineconeUpsert (Base64 normalized)) w4
                               in case upsert_error be of
                                    Some err \<Rightarrow> (Inl err, w5)
                                  | None \<Rightarrow>
                                     (Inr (),
                                      w5\<lparr>vectors :=
                                        upsert_vector
                                          (vector_entry embedding summary normalized response c)
                                          (vectors w5)\<rparr>))))))"

definition getSessionMessages ::
  "backend \<Rightarrow> string \<Rightarrow> world \<Rightarrow> (error + Message list) \<times> world" where
  "getSessionMessages be username w =
     (let w1 = log_call (SessionFindOne username) w
      in case session_findOne_error be of
           Some err \<Rightarrow> (Inl err, w1)
         | None \<Rightarrow>
            (case find (\<lambda>s. s_username s = username) (sessions w1) of
               None \<Rightarrow> (Inr [], w1)
             | Some s \<Rightarrow> (Inr (s_messages s), w1)))"

definition updateSessionMessages ::
  "backend \<Rightarrow> Clock \<Rightarrow> string \<Rightarrow> Message list \<Rightarrow> world \<Rightarrow> (error + unit) \<times> world" where
  "updateSessionMessages be now username newMessages w =
     (case getSessionMessages be username w of
        (Inl err, w1) \<Rightarrow> (Inl err, w1)
      | (Inr existing, w1) \<Rightarrow>
         (let w2 = log_call (SessionUpdateOne username) w1
          in case session_updateOne_error be of
               Some err \<Rightarrow> (Inl err, w2)
             | None \<Rightarrow>
                (Inr (),
                 w2\<lparr>sessions :=
                   session_upsert
                     \<lparr> s_username = username, s_messages = existing @ newMessages,
                       s_lastActive = toISOString now, s_lastActiveFormatted = formatDate now \<rparr>
                     (sessions w2)\<rparr>)))"


section \<open>Semantic search (lib/pinecone.ts)\<close>

text \<open>
  A field of the options object is absent (\<open>None\<close>), present with the value
  \<^verbatim>\<open>undefined\<close> (\<open>Some None\<close>) or present with a string.
\<close>

record QueryOptions =
  o_intent :: "string option option"
  o_type :: "string option option"
  o_topic :: "string option option"
  o_tone :: "string option option"

text \<open>The predicate of the \<^verbatim>\<open>find\<close> over the returned matches. A missing score
  compares as \<^verbatim>\<open>undefined >= threshold\<close>, which is false; \<open>topic'\<close>, \<open>tone'\<close>
  and \<open>type'\<close> may be \<^verbatim>\<open>undefined\<close> (\<open>None\<close>), which \<^verbatim>\<open>===\<close> an absent
  field of the metadata.\<close>

definition read_match ::
  "real \<Rightarrow> string \<Rightarrow> string option \<Rightarrow> string option \<Rightarrow> string option \<Rightarrow> Match \<Rightarrow> bool" where
  "read_match threshold intent' topic' tone' type' m =
     ((case m_score m of None \<Rightarrow> False | Some s \<Rightarrow> s \<ge> threshold) \<and>
      meta_field md_intent m = Some intent' \<and>
      meta_field md_topic m = topic' \<and>
      meta_field md_tone m = tone' \<and>
      (\<not> truthy type' \<or> meta_field md_type m = type'))"

definition read_request ::
  "real list \<Rightarrow> string \<Rightarrow> string option \<Rightarrow> string option \<Rightarrow> string option \<Rightarrow> QueryRequest" where
  "read_request embedding intent' topic' tone' type' =
     \<lparr> q_vector = embedding, q_topK = 5, q_includeMetadata = True,
       q_filter =
         Some \<lparr> f_intent = intent', f_topic = topic', f_tone = tone',
                f_type = (if truthy type' then type' else None) \<rparr> \<rparr>"

definition queryPineconeSimilarity ::
  "backend \<Rightarrow> string \<Rightarrow> string \<Rightarrow> real \<Rightarrow> (string \<Rightarrow> string)
     \<Rightarrow> (string \<Rightarrow> string \<Rightarrow> string \<Rightarrow> js_value \<Rightarrow> world \<Rightarrow> (error + unit) \<times> world)
     \<Rightarrow> (string \<Rightarrow> string \<Rightarrow> world \<Rightarrow> (error + bool) \<times> world)
     \<Rightarrow> QueryOptions \<Rightarrow> world \<Rightarrow> (error + string option) \<times> world" where
  "queryPineconeSimilarity be userId query threshold detectIntent saveToMongo checkMongoExists
       options w =
     (let normalized = toLowerCase (trim query);
          w1 = log_call (GetEmbedding normalized) w
      in case getEmbedding be normalized of
           Inl err \<Rightarrow> (Inl err, w1)
         | Inr embedding \<Rightarrow>
            (let intent' = (case o_intent options of Some (Some i) \<Rightarrow> i
                            | Some None \<Rightarrow> detectIntent normalized
                            | None \<Rightarrow> detectIntent normalized);
                 c = classifyContext normalized;
                 type' = (case o_type options of Some t \<Rightarrow> t | None \<Rightarrow> None);
                 topic' = (case o_topic options of Some t \<Rightarrow> t | None \<Rightarrow> Some (topic c));
                 tone' = (case o_tone options of Some t \<Rightarrow> t | None \<Rightarrow> Some (tone c));
                 request = read_request embedding intent' topic' tone' type';
                 w2 = log_call (PineconeQuery request) w1
             in case pinecone_query be (vectors w2) request of
                  Inl err \<Rightarrow> (Inl err, w2)
                | Inr matches \<Rightarrow>
                   (case find (read_match threshold intent' topic' tone' type') matches of
                      None \<Rightarrow> (Inr None, w2)
                    | Some match \<Rightarrow>
                       (case meta_field md_response match of
                          None \<Rightarrow> (Inr None, w2)
                        | Some response \<Rightarrow>
                           if response = [] then (Inr None, w2)
                           else
                             (let summary = (case meta_field md_summary match of
                                               Some s \<Rightarrow> s | None \<Rightarrow> response)
                              in case checkMongoExists userId normalized w2 of
                                   (Inl err, w3) \<Rightarrow> (Inl err, w3)
                                 | (Inr exists, w3) \<Rightarrow>
                                    if \<not> exists then
                                      (case saveToMongo userId summary normalized
                                              (JString response) w3 of
                                         (Inl err, w4) \<Rightarrow> (Inl err, w4)
                                       | (Inr u, w4) \<Rightarrow> (Inr (Some response), w4))
                                    else (Inr (Some response), w3))))))"

section \<open>Reply generation (engine/characterEngine.ts)\<close>

text \<open>
  \<open>lookup\<close> is the memory path of \<^verbatim>\<open>generateReply\<close>, its steps 1 and 2: the exact
  match in MongoDB, then the semantic match in Pinecone. Its value is the cached reply,
  \<open>None\<close> when both tiers miss, or the exception that escapes.
\<close>

text \<open>The threshold that \<^verbatim>\<open>generateReply\<close> passes: the literal \<^verbatim>\<open>0.85\<close>.\<close>

definition read_threshold :: real where
  "read_threshold = js_number (85 / 100)"

definition checkMongoExists ::
  "backend \<Rightarrow> string \<Rightarrow> string \<Rightarrow> world \<Rightarrow> (error + bool) \<times> world" where
  "checkMongoExists be id' q w =
     (case searchValidCachedMemory be id' q w of (r, w1) \<Rightarrow> (Inr (r \<noteq> None), w1))"

text \<open>\<^verbatim>\<open>mongoHit?.response\<close> is truthy.\<close>

definition hit_response :: "MemoryEntry option \<Rightarrow> bool" where
  "hit_response mongoHit =
     (case mongoHit of None \<Rightarrow> False | Some hit \<Rightarrow> js_truthy (me_response hit))"

definition lookup ::
  "backend \<Rightarrow> Clock \<Rightarrow> string \<Rightarrow> string \<Rightarrow> world \<Rightarrow> (error + string option) \<times> world" where
  "lookup be now username input w =
     (let normalized = normalizeQuery input;
          c = classifyContext normalized
      in case searchValidCachedMemory be username normalized w of
           (mongoHit, w1) \<Rightarrow>
             if hit_response mongoHit
             then (Inr (map_option (response_text \<circ> me_response) mongoHit), w1)
             else queryPineconeSimilarity be username normalized read_threshold
                    (\<lambda>q. intent c) (addOrUpdateLongTermMemory be now) (checkMongoExists be)
                    \<lparr> o_intent = None, o_type = None, o_topic = Some (Some (topic c)),
                      o_tone = None \<rparr> w1)"

text \<open>
  The chat model is the service \<open>streamText\<close>: given the conversation (the system prompt
  apart, which is a constant of the persona) it yields the text parts of the stream.
\<close>

definition generateReply ::
  "backend \<Rightarrow> Clock \<Rightarrow> Clock \<Rightarrow> string \<Rightarrow> string \<Rightarrow> world \<Rightarrow> (error + string) \<times> world" where
  "generateReply be now now' username input w =
     (case lookup be now username input w of
        (Inl err, w1) \<Rightarrow> (Inl err, w1)
      | (Inr (Some reply), w1) \<Rightarrow> (Inr reply, w1)
      | (Inr None, w1) \<Rightarrow>
         (case getSessionMessages be username w1 of
            (Inl err, w2) \<Rightarrow> (Inl err, w2)
          | (Inr context, w2) \<Rightarrow>
             (let w3 = log_call (StreamText input) w2
              in case streamText be (context @ [\<lparr> msg_role = ''user'', msg_content = input \<rparr>]) of
                   Inl err \<Rightarrow> (Inl err, w3)
                 | Inr parts \<Rightarrow>
                    (let finalText = trim (concat parts)
                     in if length finalText > 5 then
                          (case addOrUpdateLongTermMemory be now username finalText
                                  (normalizeQuery input) (JString finalText) w3 of
                             (Inl err, w4) \<Rightarrow> (Inl err, w4)
                           | (Inr u, w4) \<Rightarrow>
                              (case updateSessionMessages be now' username
                                      [\<lparr> msg_role = ''user'', msg_content = input \<rparr>,
                                       \<lparr> msg_role = ''assistant'', msg_content = finalText \<rparr>] w4 of
                                 (Inl err, w5) \<Rightarrow> (Inl err, w5)
                               | (Inr u', w5) \<Rightarrow> (Inr finalText, w5)))
                        else (Inr finalText, w3)))))"

section \<open>Posted tweets (actions/actionWithApi.ts)\<close>

text \<open>
  The collection \<^verbatim>\<open>tweets\<close> is a list of documents; \<^verbatim>\<open>insertOne\<close> appends one. The
  code creates no index on it. \<open>posted\<close> is what was sent to the Twitter API. The
  failures of the store and of Twitter are the fields of \<open>tweet_backend\<close>, each the
  message of the exception raised. Writing the log file has no effect on the control flow
  (\<^verbatim>\<open>logMessage\<close> catches its own errors) and is left out.
\<close>

record MongoTweet =
  tw_text :: string
  tw_createdAt :: string

record tweet_world =
  tweets :: "MongoTweet list"
  posted :: "string list"

record tweet_backend =
  tw_findOne_error :: "string option"
  tw_insertOne_error :: "string option"
  verifySession :: bool
  tw_tweet_error :: "string option"

definition is_quote :: "char \<Rightarrow> bool" where
  "is_quote c = (c = CHR 0x22 \<or> c = CHR 0x27)"

text \<open>\<^verbatim>\<open>content.replace(/^["']|["']$/g, '')\<close>: one quote at the start and one at the end.\<close>

definition strip_quotes :: "string \<Rightarrow> string" where
  "strip_quotes s =
     (let s1 = (case s of [] \<Rightarrow> [] | c # cs \<Rightarrow> if is_quote c then cs else s)
      in if s1 \<noteq> [] \<and> is_quote (last s1) then butlast s1 else s1)"

definition sanitizeTweet :: "string \<Rightarrow> string" where
  "sanitizeTweet content = toLowerCase (trim (strip_quotes content))"

definition hasTweet :: "tweet_backend \<Rightarrow> string \<Rightarrow> tweet_world \<Rightarrow> bool" where
  "hasTweet be content w =
     (let sanitizedContent = sanitizeTweet content
      in case tw_findOne_error be of
           Some msg \<Rightarrow> False
         | None \<Rightarrow> find (\<lambda>d. tw_text d = sanitizedContent) (tweets w) \<noteq> None)"

definition storeTweet ::
  "tweet_backend \<Rightarrow> string \<Rightarrow> string \<Rightarrow> tweet_world \<Rightarrow> (error + unit) \<times> tweet_world" where
  "storeTweet be now content w =
     (let sanitizedContent = sanitizeTweet content
      in case tw_insertOne_error be of
           Some msg \<Rightarrow> (Inl (Error (''MongoDB store error: '' @ msg)), w)
         | None \<Rightarrow>
            (Inr (), w\<lparr>tweets := tweets w @ [\<lparr> tw_text = sanitizedContent, tw_createdAt = now \<rparr>]\<rparr>))"

definition postTweet ::
  "tweet_backend \<Rightarrow> string \<Rightarrow> string \<Rightarrow> tweet_world \<Rightarrow> (error + unit) \<times> tweet_world" where
  "postTweet be now content w =
     (if \<not> verifySession be then (Inl (Error ''Failed to verify Twitter API session''), w)
      else
        (let sanitizedContent = sanitizeTweet content
         in if hasTweet be sanitizedContent w then (Inr (), w)
            else
              (case tw_tweet_error be of
                 Some msg \<Rightarrow> (Inl (Error (''Tweet error: '' @ msg)), w)
               | None \<Rightarrow>
                  (let w1 = w\<lparr>posted := posted w @ [sanitizedContent]\<rparr>
                   in case storeTweet be now sanitizedContent w1 of
                        (Inl (Error msg), w2) \<Rightarrow> (Inl (Error (''Tweet error: '' @ msg)), w2)
                      | (Inr u, w2) \<Rightarrow> (Inr (), w2)))))"


section \<open>Sequences of admissions\<close>




section \<open>Concrete stores and services for the examples\<close>

text \<open>
  An index for the examples. Its entries are kept in the order of decreasing similarity to
  the query vector and \<open>score_of\<close> gives the similarity of each; a query returns the
  first \<open>topK\<close> entries that pass the metadata filter of the request (a field of the
  filter that is \<^verbatim>\<open>undefined\<close> is not sent and filters nothing).
\<close>

definition passes_filter :: "QueryFilter option \<Rightarrow> Match \<Rightarrow> bool" where
  "passes_filter flt m =
     (case flt of
        None \<Rightarrow> True
      | Some f \<Rightarrow>
          meta_field md_intent m = Some (f_intent f) \<and>
          (case f_topic f of None \<Rightarrow> True | Some t \<Rightarrow> meta_field md_topic m = Some t) \<and>
          (case f_tone f of None \<Rightarrow> True | Some t \<Rightarrow> meta_field md_tone m = Some t) \<and>
          (case f_type f of None \<Rightarrow> True | Some t \<Rightarrow> meta_field md_type m = Some t))"

definition scored_index ::
  "(vector_id \<Rightarrow> real) \<Rightarrow> VectorEntry list \<Rightarrow> QueryRequest \<Rightarrow> error + Match list" where
  "scored_index score_of es r =
     Inr (take (q_topK r)
            (filter (passes_filter (q_filter r))
               (map (\<lambda>e. \<lparr> m_id = ve_id e, m_score = Some (score_of (ve_id e)),
                           m_metadata = Some (ve_metadata e) \<rparr>) es)))"

text \<open>A backend whose stores all respond, with the given embedding model and index.\<close>

definition healthy ::
  "(string \<Rightarrow> error + real list)
     \<Rightarrow> (VectorEntry list \<Rightarrow> QueryRequest \<Rightarrow> error + Match list) \<Rightarrow> backend" where
  "healthy emb idx =
     \<lparr> findOne_error = None, updateOne_error = None, getEmbedding = emb, pinecone_query = idx,
       upsert_error = None, session_findOne_error = None, session_updateOne_error = None,
       streamText = (\<lambda>m. Inr []) \<rparr>"

definition empty_world :: world where
  "empty_world = \<lparr> long_term = [], vectors = [], sessions = [], calls = [] \<rparr>"

definition noon :: Clock where
  "noon = \<lparr> toISOString = ''2025-01-01T12:00:00.000Z'', formatDate = ''01/01/25, 12:00:00'' \<rparr>"

text \<open>The vector entry that an admission of the reply \<open>r\<close> to the query \<open>n\<close> writes.\<close>

definition stored :: "real list \<Rightarrow> string \<Rightarrow> string \<Rightarrow> VectorEntry" where
  "stored v n r = vector_entry v r n (JString r) (classifyContext n)"

text \<open>
  An index with five entries of the context (question, tech, neutral) at the similarity
  \<^verbatim>\<open>0.995\<close> to the query vector and one entry of the context (question, other, neutral)
  at \<^verbatim>\<open>0.99\<close>, and its backend.
\<close>

definition crowded_world :: world where
  "crowded_world =
     \<lparr> long_term = [],
       vectors =
         [stored [1, 2] ''is the app big?'' ''a'', stored [1, 3] ''is this app big?'' ''b'',
          stored [1, 4] ''is that app big?'' ''c'', stored [1, 5] ''is my app big?'' ''d'',
          stored [1, 6] ''is an app big?'' ''e'', stored [1, 7] ''is it big??'' ''f''],
       sessions = [], calls = [] \<rparr>"

definition crowded_scores :: "vector_id \<Rightarrow> real" where
  "crowded_scores i =
     (if i = Base64 ''is it big??'' then js_number (99 / 100) else js_number (995 / 1000))"

definition crowded_backend :: backend where
  "crowded_backend = healthy (\<lambda>q. Inr [1, 1]) (scored_index crowded_scores)"

text \<open>The five matches that the index of \<open>crowded_world\<close> returns without a filter, and
  the one it returns with the filter of the context (question, other, neutral).\<close>

definition crowded_match :: "real list \<Rightarrow> string \<Rightarrow> string \<Rightarrow> Match" where
  "crowded_match v n r =
     \<lparr> m_id = Base64 n, m_score = Some (crowded_scores (Base64 n)),
       m_metadata = Some (ve_metadata (stored v n r)) \<rparr>"

definition crowded_top5 :: "Match list" where
  "crowded_top5 =
     [crowded_match [1, 2] ''is the app big?'' ''a'',
      crowded_match [1, 3] ''is this app big?'' ''b'',
      crowded_match [1, 4] ''is that app big?'' ''c'',
      crowded_match [1, 5] ''is my app big?'' ''d'',
      crowded_match [1, 6] ''is an app big?'' ''e'']"

text \<open>A world that knows the reply to \<open>what is beskar?\<close> in the index only.\<close>

definition beskar_world :: world where
  "beskar_world =
     \<lparr> long_term = [],
       vectors = [stored [3, 4] ''what is beskar?'' ''Beskar is Mandalorian steel.''],
       sessions = [], calls = [] \<rparr>"




text \<open>The entry of \<open>beskar_world\<close> as a match with the score \<open>s\<close>.\<close>

definition beskar_match :: "real \<Rightarrow> Match" where
  "beskar_match s =
     \<lparr> m_id = Base64 ''what is beskar?'', m_score = Some s,
       m_metadata = Some (ve_metadata (stored [3, 4] ''what is beskar?''
                      ''Beskar is Mandalorian steel.'')) \<rparr>"

text \<open>
  An index with two entries of the context (question, starwars, neutral): the first at the
  similarity \<^verbatim>\<open>0.85\<close> to the query vector, the second at \<^verbatim>\<open>0.8499\<close>; and the
  index that holds the second entry only.
\<close>

definition pair_world :: world where
  "pair_world =
     \<lparr> long_term = [],
       vectors = [stored [3, 4] ''what is beskar?'' ''Beskar is Mandalorian steel.'',
                  stored [4, 3] ''what is beskar made of?'' ''Iron.''],
       sessions = [], calls = [] \<rparr>"

definition low_world :: world where
  "low_world = pair_world\<lparr>vectors := [stored [4, 3] ''what is beskar made of?'' ''Iron.'']\<rparr>"

definition pair_scores :: "vector_id \<Rightarrow> real" where
  "pair_scores i =
     (if i = Base64 ''what is beskar?'' then js_number (85 / 100)
      else js_number (8499 / 10000))"

definition pair_backend :: backend where
  "pair_backend = healthy (\<lambda>q. Inr [3, 4]) (scored_index pair_scores)"

definition pair_match :: "real list \<Rightarrow> string \<Rightarrow> string \<Rightarrow> Match" where
  "pair_match v n r =
     \<lparr> m_id = Base64 n, m_score = Some (pair_scores (Base64 n)),
       m_metadata = Some (ve_metadata (stored v n r)) \<rparr>"

text \<open>A tweet store and a Twitter session that respond.\<close>

definition tweets_up :: tweet_backend where
  "tweets_up =
     \<lparr> tw_findOne_error = None, tw_insertOne_error = None, verifySession = True,
       tw_tweet_error = None \<rparr>"

definition no_tweets :: tweet_world where
  "no_tweets = \<lparr> tweets = [], posted = [] \<rparr>"

text \<open>A backend whose embedding model fails; a backend whose index fails.\<close>

definition embedding_down :: backend where
  "embedding_down = healthy (\<lambda>q. Inl (Error ''embedding down'')) (scored_index (\<lambda>i. 1))"

definition index_down :: backend where
  "index_down = healthy (\<lambda>q. Inr [3, 4]) (\<lambda>es r. Inl (Error ''index down''))"




section \<open>Auxiliary notions for the proofs\<close>

text \<open>A word of a regular expression is solid when it begins and ends with a literal
  character that is no white space; trimming the text cannot change whether it occurs.\<close>

fun starts_solid :: "atom list \<Rightarrow> bool" where
  "starts_solid (Lit c # p) = (\<not> is_space c)"
| "starts_solid p = False"

fun ends_solid :: "atom list \<Rightarrow> bool" where
  "ends_solid [] = False"
| "ends_solid [Lit c] = (\<not> is_space c)"
| "ends_solid [OptSpace] = False"
| "ends_solid (a # b # p) = ends_solid (b # p)"

definition solid :: "atom list \<Rightarrow> bool" where
  "solid p = (starts_solid p \<and> ends_solid p)"

text \<open>
  The intent rule as the specification words it: the text holds a question mark or an
  interrogative word. A word of a text is a maximal run of letters and digits.
\<close>

definition is_word_char :: "char \<Rightarrow> bool" where
  "is_word_char c =
     (let n = (of_char c :: nat)
      in (48 \<le> n \<and> n \<le> 57) \<or> (65 \<le> n \<and> n \<le> 90) \<or> (97 \<le> n \<and> n \<le> 122))"

fun split_words :: "string \<Rightarrow> string \<Rightarrow> string list" where
  "split_words cur [] = (if cur = [] then [] else [cur])"
| "split_words cur (c # cs) =
     (if is_word_char c then split_words (cur @ [c]) cs
      else (if cur = [] then [] else [cur]) @ split_words [] cs)"

definition spec_is_question :: "string \<Rightarrow> bool" where
  "spec_is_question q =
     (CHR ''?'' \<in> set q \<or>
      list_ex (\<lambda>w. w \<in> set interrogative_words) (split_words [] (toLowerCase q)))"




text \<open>
  The exact tier misses: the \<^verbatim>\<open>findOne\<close> raised (the error is caught and null
  returned), or no row has the normalised query, or the response of the row found is not
  truthy.
\<close>

definition exact_miss :: "backend \<Rightarrow> string \<Rightarrow> world \<Rightarrow> bool" where
  "exact_miss be input w =
     (findOne_error be \<noteq> None \<or>
      \<not> hit_response (find (\<lambda>d. me_query d = normalizeQuery input) (long_term w)))"

section \<open>Properties of normalisation and of the classifier\<close>

lemma lower_char_idem: "lower_char (lower_char c) = lower_char c"
  by (auto simp: lower_char_def is_upper_def Let_def)

lemma is_space_lower_char: "is_space (lower_char c) = is_space c"
  by (auto simp: lower_char_def is_upper_def is_space_def Let_def)

lemma toLowerCase_idem: "toLowerCase (toLowerCase s) = toLowerCase s"
  by (simp add: toLowerCase_def lower_char_idem)

lemma is_space_comp_lower: "is_space \<circ> lower_char = is_space"
  by (rule ext) (simp add: is_space_lower_char)

lemma toLowerCase_trim: "toLowerCase (trim s) = trim (toLowerCase s)"
  by (simp add: toLowerCase_def trim_def rev_map dropWhile_map is_space_comp_lower)

lemma ends_solid_not_empty: "ends_solid p \<Longrightarrow> \<not> match_here p []"
proof (induction p rule: ends_solid.induct)
  case (4 a b p)
  then show ?case by (cases a) auto
qed auto

lemma match_here_snoc_space:
  "ends_solid p \<Longrightarrow> is_space a \<Longrightarrow> match_here p (s @ [a]) = match_here p s"
proof (induction p s rule: match_here.induct)
  case (1 s)
  then show ?case by simp
next
  case (2 c p)
  then show ?case by (cases p) (auto simp: ends_solid_not_empty)
next
  case (3 c p x s)
  then show ?case by (cases p) auto
next
  case (4 p)
  then show ?case by (cases p) (auto simp: ends_solid_not_empty)
next
  case (5 p x s)
  then show ?case by (cases p) auto
qed

lemma search_snoc_space:
  "ends_solid p \<Longrightarrow> is_space a \<Longrightarrow> search p (s @ [a]) = search p s"
proof (induction s)
  case Nil
  then show ?case
    using match_here_snoc_space [of p a "[]"] by (simp add: ends_solid_not_empty)
next
  case (Cons x s)
  then show ?case
    using match_here_snoc_space [of p a "x # s"] by simp
qed

lemma search_cons_space:
  "starts_solid p \<Longrightarrow> is_space a \<Longrightarrow> search p (a # s) = search p s"
  by (cases p rule: starts_solid.cases) auto

lemma search_drop_leading:
  "starts_solid p \<Longrightarrow> search p (dropWhile is_space s) = search p s"
  by (induction s) (auto simp: search_cons_space simp del: search.simps)

lemma search_drop_trailing:
  "ends_solid p \<Longrightarrow> search p (rev (dropWhile is_space (rev s))) = search p s"
  by (induction s rule: rev_induct) (auto simp: search_snoc_space)

lemma search_trim: "solid p \<Longrightarrow> search p (trim s) = search p s"
  by (simp add: solid_def trim_def search_drop_trailing search_drop_leading)

lemma test_trim: "list_all solid alts \<Longrightarrow> test alts (trim s) = test alts s"
  by (induction alts) (auto simp: test_def search_trim)

lemma solid_re:
  "list_all solid re_intent" "list_all solid re_crypto" "list_all solid re_starwars"
  "list_all solid re_anime" "list_all solid re_music" "list_all solid re_movie"
  "list_all solid re_celebrity" "list_all solid re_tech" "list_all solid re_alien"
  "list_all solid re_popculture" "list_all solid re_empathetic" "list_all solid re_playful"
  "list_all solid re_serious"
  by code_simp+

lemma classify_lower_trim: "classify_lower (trim s) = classify_lower s"
  by (simp add: classify_lower_def test_trim solid_re)

lemma match_here_lit: "match_here (lit w) s = prefix w s"
proof (induction w arbitrary: s)
  case Nil
  then show ?case by (simp add: lit_def)
next
  case (Cons c w)
  then show ?case by (cases s) (auto simp: lit_def)
qed

lemma search_lit: "search (lit w) s = sublist w s"
proof (induction s)
  case Nil
  then show ?case by (cases w) (simp_all add: lit_def)
next
  case (Cons x s)
  then show ?case by (simp add: match_here_lit sublist_Cons_right)
qed

lemma test_lits: "test (map lit ws) s = (\<exists>w\<in>set ws. sublist w s)"
  by (simp add: test_def list_ex_iff search_lit)

lemma classify_normalize: "classifyContext (normalizeQuery q) = classifyContext q"
  by (simp add: classifyContext_def normalizeQuery_def toLowerCase_idem toLowerCase_trim
      classify_lower_trim)

text \<open>
  C9. The classifier gives the same context key for a query and for its normalised
  form: \<open>classifyContext (normalizeQuery q) = classifyContext q\<close> for every string
  \<open>q\<close>. Hence \<open>lookup\<close>, which classifies the normalised text, and
  \<open>addOrUpdateLongTermMemory\<close>, which classifies the query it is given, derive the
  same key.
\<close>

theorem classifyContext_normalizeQuery:
  "classifyContext (normalizeQuery q) = classifyContext q"
  by (rule classify_normalize)

theorem classifyContext_normalizeQuery_witness:
  "classifyContext (normalizeQuery ''  What is Beskar?  '') =
     \<lparr> intent = ''question'', topic = ''starwars'', tone = ''neutral'' \<rparr> \<and>
   classifyContext ''  What is Beskar?  '' =
     \<lparr> intent = ''question'', topic = ''starwars'', tone = ''neutral'' \<rparr>"
proof -
  have "classifyContext ''  What is Beskar?  '' =
      \<lparr> intent = ''question'', topic = ''starwars'', tone = ''neutral'' \<rparr>"
    by code_simp
  then show ?thesis
    using classifyContext_normalizeQuery [of "''  What is Beskar?  ''"] by simp
qed

text \<open>
  C10, as the specification states it, fails: the one-word text \<open>this\<close> holds no
  question mark and is no interrogative word, and its intent is \<open>question\<close>, because
  the regular expression finds \<open>is\<close> inside the word.
\<close>

theorem intent_word_counterexample:
  "intent (classifyContext ''this'') = ''question'' \<and> \<not> spec_is_question ''this''"
  by code_simp

text \<open>
  C10, amended. For every text, \<open>classifyContext\<close> returns the intent \<open>question\<close>
  exactly when the lower-cased text contains, as a contiguous substring (inside a longer
  word or not), a question mark or one of \<open>what, why, how, who, when, is, are, do, does,
  should\<close>; it returns \<open>statement\<close> otherwise.
\<close>

theorem classifyContext_intent:
  "intent (classifyContext q) =
     (if \<exists>w\<in>set (''?'' # interrogative_words). sublist w (toLowerCase q) then ''question''
      else ''statement'')"
proof -
  have "test re_intent (toLowerCase q) =
      (\<exists>w\<in>set (''?'' # interrogative_words). sublist w (toLowerCase q))"
    unfolding re_intent_def by (rule test_lits)
  then show ?thesis
    by (simp only: classifyContext_def classify_lower_def ContextKey.select_convs)
qed

theorem classifyContext_intent_witness:
  "(\<exists>w\<in>set (''?'' # interrogative_words). sublist w (toLowerCase ''This'')) \<and>
   intent (classifyContext ''This'') = ''question'' \<and>
   \<not> (\<exists>w\<in>set (''?'' # interrogative_words). sublist w (toLowerCase ''Nice'')) \<and>
   intent (classifyContext ''Nice'') = ''statement''"
proof -
  have a: "intent (classifyContext ''This'') = ''question''"
    and b: "intent (classifyContext ''Nice'') = ''statement''"
    by code_simp+
  from a have "\<exists>w\<in>set (''?'' # interrogative_words). sublist w (toLowerCase ''This'')"
    using classifyContext_intent [of "''This''"] by (simp split: if_splits)
  moreover from b have "\<not> (\<exists>w\<in>set (''?'' # interrogative_words). sublist w (toLowerCase ''Nice''))"
    using classifyContext_intent [of "''Nice''"] by (simp split: if_splits)
  ultimately show ?thesis using a b by blast
qed

section \<open>Properties of the memory operations\<close>

lemma dropWhile_fix: "xs = [] \<or> \<not> P (hd xs) \<Longrightarrow> dropWhile P xs = xs"
  by (cases xs) auto

lemma trim_idem: "trim (trim s) = trim s"
proof -
  define t where "t = dropWhile is_space s"
  define u where "u = rev (dropWhile is_space (rev t))"
  have t_head: "t = [] \<or> \<not> is_space (hd t)"
    unfolding t_def using hd_dropWhile [of is_space s] by blast
  have split: "t = u @ rev (takeWhile is_space (rev t))"
    unfolding u_def using takeWhile_dropWhile_id [of is_space "rev t"]
    by (metis rev_append rev_rev_ident)
  have "u = [] \<or> \<not> is_space (hd u)"
  proof (cases u)
    case Nil
    then show ?thesis by simp
  next
    case (Cons a as)
    then have ne: "u \<noteq> []" by simp
    with split have "hd t = hd u" by (metis hd_append2)
    moreover from split ne have "t \<noteq> []" by (metis append_is_Nil_conv)
    ultimately show ?thesis using t_head by simp
  qed
  then have "dropWhile is_space u = u"
    by (rule dropWhile_fix)
  moreover have "rev (dropWhile is_space (rev u)) = u"
    by (simp add: u_def)
  ultimately have "trim u = u"
    by (simp add: trim_def)
  moreover have "trim s = u"
    by (simp add: trim_def u_def t_def)
  ultimately show ?thesis by simp
qed

lemma normalizeQuery_idem: "normalizeQuery (normalizeQuery q) = normalizeQuery q"
  by (simp add: normalizeQuery_def toLowerCase_trim toLowerCase_idem trim_idem)

lemma normalize_again: "toLowerCase (trim (normalizeQuery q)) = normalizeQuery q"
  using normalizeQuery_idem [of q] by (simp add: normalizeQuery_def)

lemma find_updateOne_upsert:
  "find (\<lambda>d. me_query d = me_query e) (updateOne_upsert e ds) = Some e"
  by (induction ds) auto


lemma find_near_duplicate:
  "(find (near_duplicate c) ms = None) = (\<not> (\<exists>m\<in>set ms. near_duplicate c m))"
  by (auto simp: find_None_iff)

lemma admit_run:
  assumes "updateOne_error be = None"
    and "getEmbedding be (normalizeQuery query) = Inr embedding"
    and "pinecone_query be (vectors w) (admit_probe embedding) = Inr matches"
    and "upsert_error be = None"
  shows "addOrUpdateLongTermMemory be now username summary query response w =
     (Inr (),
      (if \<exists>m\<in>set matches. near_duplicate (classifyContext query) m
       then w\<lparr>long_term := updateOne_upsert
                  (memory_entry now username summary (normalizeQuery query) response
                     (classifyContext query)) (long_term w),
               calls := calls w @ [MongoUpdateOne (normalizeQuery query),
                  GetEmbedding (normalizeQuery query), PineconeQuery (admit_probe embedding)]\<rparr>
       else w\<lparr>long_term := updateOne_upsert
                  (memory_entry now username summary (normalizeQuery query) response
                     (classifyContext query)) (long_term w),
               vectors := upsert_vector
                  (vector_entry embedding summary (normalizeQuery query) response
                     (classifyContext query)) (vectors w),
               calls := calls w @ [MongoUpdateOne (normalizeQuery query),
                  GetEmbedding (normalizeQuery query), PineconeQuery (admit_probe embedding),
                  PineconeUpsert (Base64 (normalizeQuery query))]\<rparr>))"
proof (cases "find (near_duplicate (classifyContext query)) matches")
  case None
  then have "\<not> (\<exists>m\<in>set matches. near_duplicate (classifyContext query) m)"
    by (simp add: find_near_duplicate)
  with None assms show ?thesis
    by (simp add: addOrUpdateLongTermMemory_def log_call_def Let_def)
next
  case (Some m)
  then have "\<exists>m\<in>set matches. near_duplicate (classifyContext query) m"
    using find_near_duplicate [of "classifyContext query" matches] by simp
  with Some assms show ?thesis
    by (simp add: addOrUpdateLongTermMemory_def log_call_def Let_def)
qed

lemma admit_embedding_fails:
  assumes "updateOne_error be = None"
    and "getEmbedding be (normalizeQuery query) = Inl err"
  shows "addOrUpdateLongTermMemory be now username summary query response w =
     (Inl err,
      w\<lparr>long_term := updateOne_upsert
            (memory_entry now username summary (normalizeQuery query) response
               (classifyContext query)) (long_term w),
        calls := calls w @ [MongoUpdateOne (normalizeQuery query),
            GetEmbedding (normalizeQuery query)]\<rparr>)"
  using assms by (simp add: addOrUpdateLongTermMemory_def log_call_def Let_def)

lemma read_threshold_value: "read_threshold = 7656119366529843 / 9007199254740992"
  by (simp add: read_threshold_def js_number_def round_def)

lemma admit_threshold_value: "admit_threshold = 2206763817411543 / 2251799813685248"
  by (simp add: admit_threshold_def js_number_def round_def)

text \<open>The doubles of the two literals lie below the decimal fractions.\<close>

lemma thresholds_below: "read_threshold < 85 / 100" "admit_threshold < 98 / 100"
  by (simp_all add: read_threshold_value admit_threshold_value)

lemma search_result:
  "searchValidCachedMemory be username (normalizeQuery input) w =
     ((if findOne_error be = None
       then find (\<lambda>d. me_query d = normalizeQuery input) (long_term w) else None),
      log_call (MongoFindOne (normalizeQuery input)) w)"
  by (cases "findOne_error be")
    (simp_all add: searchValidCachedMemory_def normalizeQuery_idem log_call_def Let_def)


lemma lookup_miss:
  assumes "exact_miss be input w"
  shows "lookup be now username input w =
     queryPineconeSimilarity be username (normalizeQuery input) read_threshold
       (\<lambda>q. intent (classifyContext (normalizeQuery input)))
       (addOrUpdateLongTermMemory be now) (checkMongoExists be)
       \<lparr> o_intent = None, o_type = None,
         o_topic = Some (Some (topic (classifyContext (normalizeQuery input)))),
         o_tone = None \<rparr>
       (log_call (MongoFindOne (normalizeQuery input)) w)"
  using assms
  by (auto simp: lookup_def search_result exact_miss_def hit_response_def Let_def)

lemma semantic_embedding_fails:
  assumes "getEmbedding be (normalizeQuery input) = Inl err"
  shows "queryPineconeSimilarity be username (normalizeQuery input) thr di save chk opts w =
     (Inl err, log_call (GetEmbedding (normalizeQuery input)) w)"
  using assms by (simp add: queryPineconeSimilarity_def normalize_again Let_def)

lemma semantic_query_fails:
  assumes "getEmbedding be (normalizeQuery input) = Inr v"
    and "pinecone_query be (vectors w)
           (read_request v (intent (classifyContext (normalizeQuery input)))
              (Some (topic (classifyContext (normalizeQuery input))))
              (Some (tone (classifyContext (normalizeQuery input)))) None) = Inl err"
  shows "fst (queryPineconeSimilarity be username (normalizeQuery input) thr
       (\<lambda>q. intent (classifyContext (normalizeQuery input))) save chk
       \<lparr> o_intent = None, o_type = None,
         o_topic = Some (Some (topic (classifyContext (normalizeQuery input)))),
         o_tone = None \<rparr>
       (log_call c w)) = Inl err"
  using assms by (simp add: queryPineconeSimilarity_def normalize_again Let_def log_call_def)

text \<open>The admission that backfills the exact tier succeeds when the stores respond.\<close>

lemma backfill_ok:
  assumes "updateOne_error be = None" and "upsert_error be = None"
    and "getEmbedding be (normalizeQuery input) = Inr v"
    and "pinecone_query be (vectors w) (admit_probe v) = Inr probed"
    and "vectors w' = vectors w"
  shows "fst (addOrUpdateLongTermMemory be now username summary (normalizeQuery input)
            response w') = Inr ()"
proof -
  have e: "getEmbedding be (normalizeQuery (normalizeQuery input)) = Inr v"
    using assms(3) by (simp add: normalizeQuery_idem)
  have p: "pinecone_query be (vectors w') (admit_probe v) = Inr probed"
    using assms(4,5) by simp
  show ?thesis
    by (simp add: admit_run [OF assms(1) e p assms(2)])
qed

lemma semantic_outcome:
  assumes "getEmbedding be (normalizeQuery input) = Inr v"
    and "pinecone_query be (vectors w)
           (read_request v (intent (classifyContext (normalizeQuery input)))
              (Some (topic (classifyContext (normalizeQuery input))))
              (Some (tone (classifyContext (normalizeQuery input)))) None) = Inr matches"
    and "updateOne_error be = None" and "upsert_error be = None"
    and "pinecone_query be (vectors w) (admit_probe v) = Inr probed"
  shows "fst (queryPineconeSimilarity be username (normalizeQuery input) thr
       (\<lambda>q. intent (classifyContext (normalizeQuery input)))
       (addOrUpdateLongTermMemory be now) (checkMongoExists be)
       \<lparr> o_intent = None, o_type = None,
         o_topic = Some (Some (topic (classifyContext (normalizeQuery input)))),
         o_tone = None \<rparr>
       (log_call c w)) =
     (case find (read_match thr (intent (classifyContext (normalizeQuery input)))
              (Some (topic (classifyContext (normalizeQuery input))))
              (Some (tone (classifyContext (normalizeQuery input)))) None) matches of
        None \<Rightarrow> Inr None
      | Some m \<Rightarrow>
          if truthy (meta_field md_response m) then Inr (meta_field md_response m)
          else Inr None)"
proof -
  let ?n = "normalizeQuery input"
  let ?c = "classifyContext ?n"
  let ?P = "read_match thr (intent ?c) (Some (topic ?c)) (Some (tone ?c)) None"
  have save: "fst (addOrUpdateLongTermMemory be now username summary ?n response w') = Inr ()"
    if "vectors w' = vectors w" for summary response w'
    using backfill_ok [OF assms(3,4,1,5) that] .
  have save': "(case addOrUpdateLongTermMemory be now username summary ?n response w' of
        (Inl err, w4) \<Rightarrow> (Inl err, w4)
      | (Inr u, w4) \<Rightarrow> (Inr (Some r), w4)) =
      (Inr (Some r), snd (addOrUpdateLongTermMemory be now username summary ?n response w'))"
    if "vectors w' = vectors w" for summary response w' r
    using save [OF that, of summary response]
    by (cases "addOrUpdateLongTermMemory be now username summary ?n response w'") auto
  show ?thesis
  proof (cases "find ?P matches")
    case None
    with assms(1,2) show ?thesis
      by (simp add: queryPineconeSimilarity_def normalize_again Let_def log_call_def)
  next
    case (Some m)
    show ?thesis
    proof (cases "truthy (meta_field md_response m)")
      case False
      with Some assms(1,2) show ?thesis
        by (simp add: queryPineconeSimilarity_def normalize_again Let_def log_call_def
            truthy_def split: option.splits)
    next
      case True
      then obtain r where r: "meta_field md_response m = Some r" "r \<noteq> []"
        by (auto simp: truthy_def split: option.splits)
      with Some assms(1,2) True show ?thesis
        by (simp add: queryPineconeSimilarity_def normalize_again Let_def log_call_def
            checkMongoExists_def searchValidCachedMemory_def save' split: option.splits)
    qed
  qed
qed









text \<open>
  The rule of the skip, over the matches that the probe returns: with stores, embedding
  model and index that respond, the upsert is skipped exactly when some returned match has
  a score (taken as 0 when missing) of at least the double \<^verbatim>\<open>0.98\<close> and the intent,
  topic and tone of the admitted query.
\<close>

lemma admit_skip_rule:
  assumes "updateOne_error be = None"
    and "getEmbedding be (normalizeQuery query) = Inr embedding"
    and "pinecone_query be (vectors w) (admit_probe embedding) = Inr matches"
    and "upsert_error be = None"
  shows "(let c = classifyContext query;
              normalized = normalizeQuery query;
              skip = (\<exists>m\<in>set matches.
                        (case m_score m of None \<Rightarrow> 0 | Some s \<Rightarrow> s) \<ge> js_number (98 / 100) \<and>
                        meta_field md_intent m = Some (intent c) \<and>
                        meta_field md_topic m = Some (topic c) \<and>
                        meta_field md_tone m = Some (tone c));
              w' = snd (addOrUpdateLongTermMemory be now username summary query response w)
          in calls w' =
               calls w @ [MongoUpdateOne normalized, GetEmbedding normalized,
                          PineconeQuery (admit_probe embedding)]
                 @ (if skip then [] else [PineconeUpsert (Base64 normalized)]) \<and>
             vectors w' =
               (if skip then vectors w
                else upsert_vector (vector_entry embedding summary normalized response c)
                       (vectors w)))"
proof -
  note run = admit_run [OF assms, of now username summary response]
  show ?thesis
    unfolding Let_def admit_threshold_def [symmetric] near_duplicate_def [symmetric]
    by (cases "\<exists>m\<in>set matches. near_duplicate (classifyContext query) m")
      (simp_all add: run)
qed

text \<open>
  C1. The claim: the probe of admit asks the index for the neighbours filtered by the
  context key of the admitted query, and the upsert is skipped if and only if a probed
  neighbour has a score of at least 0.98 and that context. The code at the failing input:
  the index holds five entries of the context (question, tech, neutral) at the similarity
  0.995 to the embedding of \<open>Is it big?\<close> and one entry of the query's own context
  (question, other, neutral) at 0.99. The probe of \<open>addOrUpdateLongTermMemory\<close> carries
  no filter, the five matches it gets are of the other context, none is a near-duplicate,
  and the entry is upserted. Asked with the filter of the context key, as the read path
  asks, the same index returns the neighbour at 0.99, which is a near-duplicate.
\<close>

theorem admit_probe_unfiltered:
  "classifyContext ''Is it big?'' =
     \<lparr> intent = ''question'', topic = ''other'', tone = ''neutral'' \<rparr> \<and>
   q_filter (admit_probe [1, 1]) = None \<and>
   pinecone_query crowded_backend (vectors crowded_world) (admit_probe [1, 1]) =
     Inr crowded_top5 \<and>
   find (near_duplicate (classifyContext ''Is it big?'')) crowded_top5 = None \<and>
   calls (snd (addOrUpdateLongTermMemory crowded_backend noon ''mando'' ''big''
                 ''Is it big?'' (JString ''It is big.'') crowded_world)) =
     [MongoUpdateOne ''is it big?'', GetEmbedding ''is it big?'',
      PineconeQuery (admit_probe [1, 1]), PineconeUpsert (Base64 ''is it big?'')] \<and>
   map ve_id (vectors (snd (addOrUpdateLongTermMemory crowded_backend noon ''mando'' ''big''
                 ''Is it big?'' (JString ''It is big.'') crowded_world))) =
     map ve_id (vectors crowded_world) @ [Base64 ''is it big?''] \<and>
   pinecone_query crowded_backend (vectors crowded_world)
     (read_request [1, 1] ''question'' (Some ''other'') (Some ''neutral'') None) =
     Inr [crowded_match [1, 7] ''is it big??'' ''f''] \<and>
   m_score (crowded_match [1, 7] ''is it big??'' ''f'') = Some (js_number (99 / 100)) \<and>
   near_duplicate (classifyContext ''Is it big?'') (crowded_match [1, 7] ''is it big??'' ''f'')"
  by code_simp







text \<open>
  C4, as the specification states it, fails: on a miss of the exact tier, a failure of the
  embedding model, or of the query of the index, is the outcome of \<open>lookup\<close>.
\<close>

theorem lookup_semantic_counterexample:
  "fst (lookup embedding_down noon ''mando'' ''What is Beskar?'' beskar_world) =
     Inl (Error ''embedding down'') \<and>
   fst (lookup index_down noon ''mando'' ''What is Beskar?'' beskar_world) =
     Inl (Error ''index down'')"
  by code_simp

text \<open>
  C4, amended. For every lookup whose exact tier misses, a failure of the embedding model
  or of the query of the vector index during the semantic path propagates: \<open>lookup\<close>
  fails with that error (nothing in \<open>queryPineconeSimilarity\<close> or in
  \<open>generateReply\<close> catches it).
\<close>

theorem lookup_semantic_failure:
  assumes "exact_miss be input w"
    and "getEmbedding be (normalizeQuery input) = Inl err \<or>
         (getEmbedding be (normalizeQuery input) = Inr v \<and>
          pinecone_query be (vectors w)
            (read_request v (intent (classifyContext (normalizeQuery input)))
               (Some (topic (classifyContext (normalizeQuery input))))
               (Some (tone (classifyContext (normalizeQuery input)))) None) = Inl err)"
  shows "fst (lookup be now username input w) = Inl err"
  using assms(2)
proof
  assume "getEmbedding be (normalizeQuery input) = Inl err"
  then show ?thesis
    by (simp add: lookup_miss [OF assms(1)] semantic_embedding_fails)
next
  assume "getEmbedding be (normalizeQuery input) = Inr v \<and>
    pinecone_query be (vectors w)
      (read_request v (intent (classifyContext (normalizeQuery input)))
         (Some (topic (classifyContext (normalizeQuery input))))
         (Some (tone (classifyContext (normalizeQuery input)))) None) = Inl err"
  then show ?thesis
    by (simp add: lookup_miss [OF assms(1)] semantic_query_fails)
qed

theorem lookup_semantic_failure_witness:
  "exact_miss embedding_down ''What is Beskar?'' beskar_world \<and>
   getEmbedding embedding_down (normalizeQuery ''What is Beskar?'') =
     Inl (Error ''embedding down'') \<and>
   fst (lookup embedding_down noon ''mando'' ''What is Beskar?'' beskar_world) =
     Inl (Error ''embedding down'')"
proof -
  have h1: "exact_miss embedding_down ''What is Beskar?'' beskar_world"
    by code_simp
  have h2: "getEmbedding embedding_down (normalizeQuery ''What is Beskar?'') =
      Inl (Error ''embedding down'')"
    by (simp add: embedding_down_def healthy_def)
  show ?thesis
    by (intro conjI h1 h2 lookup_semantic_failure [OF h1 disjI1 [OF h2]])
qed




text \<open>
  C8, as the specification states it, fails: when the embedding model fails, the call of
  \<open>addOrUpdateLongTermMemory\<close> fails with that error.
\<close>

theorem admit_embedding_counterexample:
  "fst (addOrUpdateLongTermMemory embedding_down noon ''mando'' ''steel'' ''What is Beskar?''
          (JString ''Beskar is steel.'') empty_world) =
     Inl (Error ''embedding down'')"
  by code_simp

text \<open>
  C8, amended. If the embedding model fails during admit, the upsert of the exact tier has
  taken effect, nothing is written to (or asked of) the vector index, and the failure
  propagates to the caller: \<open>addOrUpdateLongTermMemory\<close> fails with the error of the
  embedding model.
\<close>

theorem admit_embedding_failure:
  assumes "updateOne_error be = None"
    and "getEmbedding be (normalizeQuery query) = Inl err"
  shows "(let w' = snd (addOrUpdateLongTermMemory be now username summary query response w)
          in fst (addOrUpdateLongTermMemory be now username summary query response w) = Inl err \<and>
             find (\<lambda>d. me_query d = normalizeQuery query) (long_term w') =
               Some (memory_entry now username summary (normalizeQuery query) response
                       (classifyContext query)) \<and>
             vectors w' = vectors w \<and>
             calls w' = calls w @ [MongoUpdateOne (normalizeQuery query),
                                  GetEmbedding (normalizeQuery query)])"
proof -
  let ?e = "memory_entry now username summary (normalizeQuery query) response
      (classifyContext query)"
  have q: "me_query ?e = normalizeQuery query"
    by (simp add: memory_entry_def)
  have "find (\<lambda>d. me_query d = normalizeQuery query) (updateOne_upsert ?e (long_term w)) = Some ?e"
    using find_updateOne_upsert [of ?e "long_term w"] by (simp add: q)
  then show ?thesis
    by (simp add: admit_embedding_fails [OF assms] Let_def)
qed

theorem admit_embedding_failure_witness:
  "updateOne_error embedding_down = None \<and>
   getEmbedding embedding_down (normalizeQuery ''What is Beskar?'') =
     Inl (Error ''embedding down'') \<and>
   (let w' = snd (addOrUpdateLongTermMemory embedding_down noon ''mando'' ''steel''
                    ''What is Beskar?'' (JString ''Beskar is steel.'') empty_world)
    in fst (addOrUpdateLongTermMemory embedding_down noon ''mando'' ''steel''
              ''What is Beskar?'' (JString ''Beskar is steel.'') empty_world) =
         Inl (Error ''embedding down'') \<and>
       find (\<lambda>d. me_query d = normalizeQuery ''What is Beskar?'') (long_term w') =
         Some (memory_entry noon ''mando'' ''steel'' (normalizeQuery ''What is Beskar?'')
                 (JString ''Beskar is steel.'') (classifyContext ''What is Beskar?'')) \<and>
       vectors w' = vectors empty_world \<and>
       calls w' = calls empty_world @ [MongoUpdateOne (normalizeQuery ''What is Beskar?''),
                                      GetEmbedding (normalizeQuery ''What is Beskar?'')])"
proof -
  have h1: "updateOne_error embedding_down = None"
    by (simp add: embedding_down_def healthy_def)
  have h2: "getEmbedding embedding_down (normalizeQuery ''What is Beskar?'') =
      Inl (Error ''embedding down'')"
    by (simp add: embedding_down_def healthy_def)
  show ?thesis
    by (intro conjI h1 h2 admit_embedding_failure [OF h1 h2])
qed

text \<open>
  C6. On the semantic path of \<open>lookup\<close> (the exact tier misses; the embedding model, the
  index and the stores respond), the candidate that \<open>lookup\<close> accepts is the first
  returned one whose metadata matches the intent, topic and tone of the query and whose
  score is at least the number \<^verbatim>\<open>0.85\<close>, and \<open>lookup\<close> returns its response. So a
  first returned candidate whose metadata matches, and that carries a response, is accepted
  (its response is what \<open>lookup\<close> returns) if its score is at least \<^verbatim>\<open>0.85\<close>, and is
  rejected otherwise (\<open>lookup\<close> goes on with the candidates after it, and misses when
  there is none). At the score \<^verbatim>\<open>0.85\<close> the candidate is accepted, at \<^verbatim>\<open>0.8499\<close> it
  is rejected.
\<close>

theorem read_threshold_boundary:
  assumes "exact_miss be input w"
    and "getEmbedding be (normalizeQuery input) = Inr v"
    and "pinecone_query be (vectors w)
           (read_request v (intent (classifyContext (normalizeQuery input)))
              (Some (topic (classifyContext (normalizeQuery input))))
              (Some (tone (classifyContext (normalizeQuery input)))) None) = Inr matches"
    and "updateOne_error be = None" and "upsert_error be = None"
    and "pinecone_query be (vectors w) (admit_probe v) = Inr probed"
  shows "(let c = classifyContext (normalizeQuery input);
              matching = (\<lambda>m. meta_field md_intent m = Some (intent c) \<and>
                               meta_field md_topic m = Some (topic c) \<and>
                               meta_field md_tone m = Some (tone c));
              high = (\<lambda>m. case m_score m of None \<Rightarrow> False
                          | Some s \<Rightarrow> s \<ge> js_number (85 / 100));
              outcome = (\<lambda>ms. case find (\<lambda>m. high m \<and> matching m) ms of
                                 None \<Rightarrow> Inr None
                               | Some m \<Rightarrow>
                                   if truthy (meta_field md_response m)
                                   then Inr (meta_field md_response m) else Inr None)
          in fst (lookup be now username input w) = outcome matches \<and>
             (\<forall>m rest. matches = m # rest \<and> matching m \<and> truthy (meta_field md_response m)
                \<longrightarrow> (if high m
                     then fst (lookup be now username input w) = Inr (meta_field md_response m)
                     else fst (lookup be now username input w) = outcome rest)))"
proof -
  let ?c = "classifyContext (normalizeQuery input)"
  let ?matching = "\<lambda>m. meta_field md_intent m = Some (intent ?c) \<and>
      meta_field md_topic m = Some (topic ?c) \<and> meta_field md_tone m = Some (tone ?c)"
  let ?high = "\<lambda>m. case m_score m of None \<Rightarrow> False | Some s \<Rightarrow> s \<ge> js_number (85 / 100)"
  let ?outcome = "\<lambda>ms. case find (\<lambda>m. ?high m \<and> ?matching m) ms of
      None \<Rightarrow> Inr None
    | Some m \<Rightarrow> if truthy (meta_field md_response m) then Inr (meta_field md_response m)
                else Inr None"
  have pred: "read_match read_threshold (intent ?c) (Some (topic ?c)) (Some (tone ?c)) None =
      (\<lambda>m. ?high m \<and> ?matching m)"
    by (rule ext)
      (simp only: read_match_def read_threshold_def truthy_def option.case simp_thms)
  have main: "fst (lookup be now username input w) = ?outcome matches"
    by (simp only: lookup_miss [OF assms(1)] semantic_outcome [OF assms(2-6)] pred)
  have "\<forall>m rest. matches = m # rest \<and> ?matching m \<and> truthy (meta_field md_response m)
      \<longrightarrow> (if ?high m
           then fst (lookup be now username input w) = Inr (meta_field md_response m)
           else fst (lookup be now username input w) = ?outcome rest)"
    unfolding main by auto
  with main show ?thesis
    unfolding Let_def by (rule conjI)
qed

theorem read_threshold_boundary_witness:
  "exact_miss pair_backend ''Beskar, what is it'' pair_world \<and>
   pinecone_query pair_backend (vectors pair_world)
     (read_request [3, 4] (intent (classifyContext (normalizeQuery ''Beskar, what is it'')))
        (Some (topic (classifyContext (normalizeQuery ''Beskar, what is it''))))
        (Some (tone (classifyContext (normalizeQuery ''Beskar, what is it'')))) None) =
     Inr [pair_match [3, 4] ''what is beskar?'' ''Beskar is Mandalorian steel.'',
          pair_match [4, 3] ''what is beskar made of?'' ''Iron.''] \<and>
   m_score (pair_match [3, 4] ''what is beskar?'' ''Beskar is Mandalorian steel.'') =
     Some (js_number (85 / 100)) \<and>
   fst (lookup pair_backend noon ''mando'' ''Beskar, what is it'' pair_world) =
     Inr (Some ''Beskar is Mandalorian steel.'') \<and>
   exact_miss pair_backend ''Beskar, what is it'' low_world \<and>
   pinecone_query pair_backend (vectors low_world)
     (read_request [3, 4] (intent (classifyContext (normalizeQuery ''Beskar, what is it'')))
        (Some (topic (classifyContext (normalizeQuery ''Beskar, what is it''))))
        (Some (tone (classifyContext (normalizeQuery ''Beskar, what is it'')))) None) =
     Inr [pair_match [4, 3] ''what is beskar made of?'' ''Iron.''] \<and>
   m_score (pair_match [4, 3] ''what is beskar made of?'' ''Iron.'') =
     Some (js_number (8499 / 10000)) \<and>
   fst (lookup pair_backend noon ''mando'' ''Beskar, what is it'' low_world) = Inr None"
proof -
  let ?q = "''Beskar, what is it''"
  let ?c = "classifyContext (normalizeQuery ?q)"
  let ?a = "pair_match [3, 4] ''what is beskar?'' ''Beskar is Mandalorian steel.''"
  let ?b = "pair_match [4, 3] ''what is beskar made of?'' ''Iron.''"
  have e: "getEmbedding pair_backend (normalizeQuery ?q) = Inr [3, 4]"
    and u: "updateOne_error pair_backend = None" "upsert_error pair_backend = None"
    by (simp_all add: pair_backend_def healthy_def)
  have a1: "exact_miss pair_backend ?q pair_world"
    and b1: "exact_miss pair_backend ?q low_world"
    by code_simp+
  have a2: "pinecone_query pair_backend (vectors pair_world)
      (read_request [3, 4] (intent ?c) (Some (topic ?c)) (Some (tone ?c)) None) = Inr [?a, ?b]"
    and b2: "pinecone_query pair_backend (vectors low_world)
      (read_request [3, 4] (intent ?c) (Some (topic ?c)) (Some (tone ?c)) None) = Inr [?b]"
    by code_simp+
  have a3: "pinecone_query pair_backend (vectors pair_world) (admit_probe [3, 4]) =
      Inr [?a, ?b]"
    and b3: "pinecone_query pair_backend (vectors low_world) (admit_probe [3, 4]) = Inr [?b]"
    by code_simp+
  have ma: "meta_field md_intent ?a = Some (intent ?c) \<and>
      meta_field md_topic ?a = Some (topic ?c) \<and> meta_field md_tone ?a = Some (tone ?c)"
    and mb: "meta_field md_intent ?b = Some (intent ?c) \<and>
      meta_field md_topic ?b = Some (topic ?c) \<and> meta_field md_tone ?b = Some (tone ?c)"
    by code_simp+
  have ra: "meta_field md_response ?a = Some ''Beskar is Mandalorian steel.''"
    and rb: "truthy (meta_field md_response ?b)"
    by code_simp+
  have sa: "m_score ?a = Some (js_number (85 / 100))"
    and sb: "m_score ?b = Some (js_number (8499 / 10000))"
    by (simp_all add: pair_match_def pair_scores_def)
  have lt: "\<not> js_number (85 / 100) \<le> js_number (8499 / 10000)"
    by (simp add: js_number_def round_def)
  note ta = read_threshold_boundary [OF a1 e a2 u a3, of noon "''mando''", unfolded Let_def]
  note tb = read_threshold_boundary [OF b1 e b2 u b3, of noon "''mando''", unfolded Let_def]
  from ta have "[?a, ?b] = ?a # [?b] \<and> (meta_field md_intent ?a = Some (intent ?c) \<and>
      meta_field md_topic ?a = Some (topic ?c) \<and> meta_field md_tone ?a = Some (tone ?c)) \<and>
      truthy (meta_field md_response ?a) \<longrightarrow>
      (if (case m_score ?a of None \<Rightarrow> False | Some s \<Rightarrow> s \<ge> js_number (85 / 100))
       then fst (lookup pair_backend noon ''mando'' ?q pair_world) =
              Inr (meta_field md_response ?a)
       else fst (lookup pair_backend noon ''mando'' ?q pair_world) =
              (case find (\<lambda>m. (case m_score m of None \<Rightarrow> False
                                 | Some s \<Rightarrow> s \<ge> js_number (85 / 100)) \<and>
                                (meta_field md_intent m = Some (intent ?c) \<and>
                                 meta_field md_topic m = Some (topic ?c) \<and>
                                 meta_field md_tone m = Some (tone ?c))) [?b] of
                 None \<Rightarrow> Inr None
               | Some m \<Rightarrow> if truthy (meta_field md_response m)
                           then Inr (meta_field md_response m) else Inr None))"
    by blast
  with ma ra sa have la: "fst (lookup pair_backend noon ''mando'' ?q pair_world) =
      Inr (Some ''Beskar is Mandalorian steel.'')"
    by (simp add: truthy_def)
  from tb have "[?b] = ?b # [] \<and> (meta_field md_intent ?b = Some (intent ?c) \<and>
      meta_field md_topic ?b = Some (topic ?c) \<and> meta_field md_tone ?b = Some (tone ?c)) \<and>
      truthy (meta_field md_response ?b) \<longrightarrow>
      (if (case m_score ?b of None \<Rightarrow> False | Some s \<Rightarrow> s \<ge> js_number (85 / 100))
       then fst (lookup pair_backend noon ''mando'' ?q low_world) =
              Inr (meta_field md_response ?b)
       else fst (lookup pair_backend noon ''mando'' ?q low_world) =
              (case find (\<lambda>m. (case m_score m of None \<Rightarrow> False
                                 | Some s \<Rightarrow> s \<ge> js_number (85 / 100)) \<and>
                                (meta_field md_intent m = Some (intent ?c) \<and>
                                 meta_field md_topic m = Some (topic ?c) \<and>
                                 meta_field md_tone m = Some (tone ?c))) [] of
                 None \<Rightarrow> Inr None
               | Some m \<Rightarrow> if truthy (meta_field md_response m)
                           then Inr (meta_field md_response m) else Inr None))"
    by blast
  with mb rb sb lt have lb: "fst (lookup pair_backend noon ''mando'' ?q low_world) = Inr None"
    by simp
  show ?thesis
    by (intro conjI a1 a2 sa la b1 b2 sb lb)
qed

section \<open>Properties of the tweet store\<close>

lemma postTweet_new:
  assumes "tw_findOne_error be = None" "tw_insertOne_error be = None" "verifySession be"
    "tw_tweet_error be = None"
    and "\<not> hasTweet be (sanitizeTweet c) w"
  shows "postTweet be t c w =
     (Inr (),
      w\<lparr>posted := posted w @ [sanitizeTweet c],
        tweets := tweets w @
          [\<lparr> tw_text = sanitizeTweet (sanitizeTweet c), tw_createdAt = t \<rparr>]\<rparr>)"
  using assms by (simp add: postTweet_def storeTweet_def Let_def)

lemma postTweet_known:
  assumes "verifySession be" and "hasTweet be (sanitizeTweet c) w"
  shows "postTweet be t c w = (Inr (), w)"
  using assms by (simp add: postTweet_def Let_def)

lemma count_absent:
  "find (\<lambda>d. tw_text d = x) ds = None \<Longrightarrow> filter (\<lambda>d. tw_text d = x) ds = []"
  by (induction ds) (auto split: if_splits)

text \<open>
  C7, as the specification states it, fails: \<open>storeTweet\<close> inserts a row at every call,
  so two calls with inputs of the same normal form leave two rows with that text.
\<close>

theorem storeTweet_twice_counterexample:
  "sanitizeTweet ''Foo'' = sanitizeTweet ''  foo  '' \<and>
   map tw_text
     (tweets (snd (storeTweet tweets_up ''t2'' ''  foo  ''
        (snd (storeTweet tweets_up ''t1'' ''Foo'' no_tweets))))) = [''foo'', ''foo'']"
  by code_simp

text \<open>
  C7, amended. \<open>storeTweet\<close> is not idempotent: while the store accepts the inserts,
  each call succeeds and appends one row with the sanitized text, so two calls with inputs
  that sanitize to the same text leave two rows with it. Rows stay unique only through the
  check that \<open>postTweet\<close> makes before it stores: with a store and a Twitter session that
  respond, posting twice through \<open>postTweet\<close> a content that the store does not hold yet
  raises no error and leaves exactly one row for it, the second call changing nothing.
\<close>

theorem storeTweet_appends:
  assumes "tw_insertOne_error be = None"
    and "sanitizeTweet a = sanitizeTweet b"
    and "tw_findOne_error be = None" and "verifySession be" and "tw_tweet_error be = None"
    and "\<not> hasTweet be (sanitizeTweet c) w"
  shows "fst (storeTweet be t1 a w) = Inr () \<and>
         fst (storeTweet be t2 b (snd (storeTweet be t1 a w))) = Inr () \<and>
         tweets (snd (storeTweet be t2 b (snd (storeTweet be t1 a w)))) =
           tweets w @ [\<lparr> tw_text = sanitizeTweet a, tw_createdAt = t1 \<rparr>,
                       \<lparr> tw_text = sanitizeTweet a, tw_createdAt = t2 \<rparr>] \<and>
         fst (postTweet be t1 c w) = Inr () \<and>
         postTweet be t2 c (snd (postTweet be t1 c w)) = (Inr (), snd (postTweet be t1 c w)) \<and>
         filter (\<lambda>d. tw_text d = sanitizeTweet (sanitizeTweet c))
           (tweets (snd (postTweet be t1 c w))) =
           [\<lparr> tw_text = sanitizeTweet (sanitizeTweet c), tw_createdAt = t1 \<rparr>]"
proof -
  have store: "fst (storeTweet be t1 a w) = Inr () \<and>
      fst (storeTweet be t2 b (snd (storeTweet be t1 a w))) = Inr () \<and>
      tweets (snd (storeTweet be t2 b (snd (storeTweet be t1 a w)))) =
        tweets w @ [\<lparr> tw_text = sanitizeTweet a, tw_createdAt = t1 \<rparr>,
                    \<lparr> tw_text = sanitizeTweet a, tw_createdAt = t2 \<rparr>]"
    using assms(1,2) by (simp add: storeTweet_def Let_def)
  note first = postTweet_new [OF assms(3) assms(1) assms(4) assms(5) assms(6), of t1]
  have absent: "find (\<lambda>d. tw_text d = sanitizeTweet (sanitizeTweet c)) (tweets w) = None"
    using assms(3,6) by (simp add: hasTweet_def Let_def)
  have known: "hasTweet be (sanitizeTweet c) (snd (postTweet be t1 c w))"
    using assms(3) by (auto simp: first hasTweet_def Let_def find_None_iff)
  have "filter (\<lambda>d. tw_text d = sanitizeTweet (sanitizeTweet c))
      (tweets (snd (postTweet be t1 c w))) =
      [\<lparr> tw_text = sanitizeTweet (sanitizeTweet c), tw_createdAt = t1 \<rparr>]"
    by (simp add: first count_absent [OF absent])
  moreover have "fst (postTweet be t1 c w) = Inr ()"
    by (simp add: first)
  moreover note postTweet_known [OF assms(4) known, of t2] store
  ultimately show ?thesis by blast
qed

theorem storeTweet_appends_witness:
  "tw_insertOne_error tweets_up = None \<and>
   sanitizeTweet ''Foo'' = sanitizeTweet ''  foo  '' \<and>
   tw_findOne_error tweets_up = None \<and> verifySession tweets_up \<and>
   tw_tweet_error tweets_up = None \<and>
   \<not> hasTweet tweets_up (sanitizeTweet ''Foo'') no_tweets \<and>
   fst (storeTweet tweets_up ''t1'' ''Foo'' no_tweets) = Inr () \<and>
   fst (storeTweet tweets_up ''t2'' ''  foo  ''
          (snd (storeTweet tweets_up ''t1'' ''Foo'' no_tweets))) = Inr () \<and>
   tweets (snd (storeTweet tweets_up ''t2'' ''  foo  ''
          (snd (storeTweet tweets_up ''t1'' ''Foo'' no_tweets)))) =
     tweets no_tweets @ [\<lparr> tw_text = sanitizeTweet ''Foo'', tw_createdAt = ''t1'' \<rparr>,
                         \<lparr> tw_text = sanitizeTweet ''Foo'', tw_createdAt = ''t2'' \<rparr>] \<and>
   fst (postTweet tweets_up ''t1'' ''Foo'' no_tweets) = Inr () \<and>
   postTweet tweets_up ''t2'' ''Foo'' (snd (postTweet tweets_up ''t1'' ''Foo'' no_tweets)) =
     (Inr (), snd (postTweet tweets_up ''t1'' ''Foo'' no_tweets)) \<and>
   filter (\<lambda>d. tw_text d = sanitizeTweet (sanitizeTweet ''Foo''))
     (tweets (snd (postTweet tweets_up ''t1'' ''Foo'' no_tweets))) =
     [\<lparr> tw_text = sanitizeTweet (sanitizeTweet ''Foo''), tw_createdAt = ''t1'' \<rparr>]"
proof -
  have h1: "tw_insertOne_error tweets_up = None"
    and h3: "tw_findOne_error tweets_up = None"
    and h4: "verifySession tweets_up"
    and h5: "tw_tweet_error tweets_up = None"
    by (simp_all add: tweets_up_def)
  have h2: "sanitizeTweet ''Foo'' = sanitizeTweet ''  foo  ''"
    by code_simp
  have h6: "\<not> hasTweet tweets_up (sanitizeTweet ''Foo'') no_tweets"
    by (simp add: hasTweet_def no_tweets_def tweets_up_def)
  from storeTweet_appends [OF h1 h2 h3 h4 h5 h6, of "''t1''" "''t2''"] h1 h2 h3 h4 h5 h6
  show ?thesis by blast
qed

end
